theory Spec2Isabelle
  imports Complex_Main
begin

section \<open>The constants of \<^verbatim>\<open>setup.py\<close>\<close>

text \<open>
  Both scripts of the repository are straight-line Python over \<^verbatim>\<open>json\<close>,
  \<^verbatim>\<open>pathlib\<close> and \<^verbatim>\<open>os\<close>. A Python \<^verbatim>\<open>str\<close> is
  given here by the bytes of its UTF-8 encoding (a \<^typ>\<open>string\<close>); the encoding is
  injective and nothing below counts or indexes characters. A byte outside printable ASCII
  is written \<open>CHR 0x..\<close>.
\<close>

subsection \<open>JSON values\<close>

text \<open>
  The values that \<^verbatim>\<open>json.dump\<close> is given: a \<^verbatim>\<open>dict\<close> literal is the list
  of its items in the order written, a \<^verbatim>\<open>float\<close> literal is the decimal number
  it is written as. The literals of the catalogue are only compared with each other and
  with the integers 90 and 180, where rounding to the nearest double changes no outcome.
\<close>

datatype json =
    JString string
  | JFloat rat
  | JObject "(string \<times> json) list"
  | JArray "json list"

text \<open>\<^verbatim>\<open>obj[key]\<close>, with \<open>None\<close> where Python raises; \<^verbatim>\<open>obj.keys()\<close>.\<close>

fun get_item :: "json \<Rightarrow> string \<Rightarrow> json option" where
  "get_item (JObject kvs) k = map_of kvs k"
| "get_item _ k = None"

fun keys :: "json \<Rightarrow> string list" where
  "keys (JObject kvs) = map fst kvs"
| "keys _ = []"

subsection \<open>The exchange catalogue\<close>

text \<open>\<^verbatim>\<open>EXCHANGE_DATA\<close>, lines 26 to 52 of \<^verbatim>\<open>setup.py\<close>.\<close>

definition EXCHANGE_DATA :: json where
  \<open>EXCHANGE_DATA = JObject [(''exchanges'', JArray [
     JObject [(''id'', JString ''NYSE''), (''name'', JString ''New York Stock Exchange''), (''lat'', JFloat 40.7069), (''lon'', JFloat (-74.0113)), (''city'', JString ''New York''), (''type'', JString ''equity'')],
     JObject [(''id'', JString ''NASDAQ''), (''name'', JString ''NASDAQ''), (''lat'', JFloat 40.7489), (''lon'', JFloat (-73.9680)), (''city'', JString ''New York''), (''type'', JString ''equity'')],
     JObject [(''id'', JString ''CME''), (''name'', JString ''Chicago Mercantile Exchange''), (''lat'', JFloat 41.8781), (''lon'', JFloat (-87.6298)), (''city'', JString ''Chicago''), (''type'', JString ''derivatives'')],
     JObject [(''id'', JString ''LSE''), (''name'', JString ''London Stock Exchange''), (''lat'', JFloat 51.5149), (''lon'', JFloat (-0.0909)), (''city'', JString ''London''), (''type'', JString ''equity'')],
     JObject [(''id'', JString ''JPX''), (''name'', JString ''Japan Exchange Group''), (''lat'', JFloat 35.6762), (''lon'', JFloat 139.6503), (''city'', JString ''Tokyo''), (''type'', JString ''equity'')],
     JObject [(''id'', JString ''SSE''), (''name'', JString ''Shanghai Stock Exchange''), (''lat'', JFloat 31.2304), (''lon'', JFloat 121.4737), (''city'', JString ''Shanghai''), (''type'', JString ''equity'')],
     JObject [(''id'', JString ''HKEX''), (''name'', JString ''Hong Kong Stock Exchange''), (''lat'', JFloat 22.3193), (''lon'', JFloat 114.1694), (''city'', JString ''Hong Kong''), (''type'', JString ''equity'')],
     JObject [(''id'', JString ''EUREX''), (''name'', JString ''Eurex''), (''lat'', JFloat 50.1109), (''lon'', JFloat 8.6821), (''city'', JString ''Frankfurt''), (''type'', JString ''derivatives'')],
     JObject [(''id'', JString ''TMX''), (''name'', JString ''TMX Group (Toronto)''), (''lat'', JFloat 43.6532), (''lon'', JFloat (-79.3832)), (''city'', JString ''Toronto''), (''type'', JString ''equity'')],
     JObject [(''id'', JString ''BSE''), (''name'', JString ''Bombay Stock Exchange''), (''lat'', JFloat 18.9292), (''lon'', JFloat 72.8333), (''city'', JString ''Mumbai''), (''type'', JString ''equity'')],
     JObject [(''id'', JString ''KRX''), (''name'', JString ''Korea Exchange''), (''lat'', JFloat 37.5665), (''lon'', JFloat 126.9780), (''city'', JString ''Seoul''), (''type'', JString ''equity'')],
     JObject [(''id'', JString ''ASX''), (''name'', JString ''Australian Securities Exchange''), (''lat'', JFloat (-33.8688)), (''lon'', JFloat 151.2093), (''city'', JString ''Sydney''), (''type'', JString ''equity'')],
     JObject [(''id'', JString ''BMV''), (''name'', JString ''Mexican Stock Exchange''), (''lat'', JFloat 19.4326), (''lon'', JFloat (-99.1332)), (''city'', JString ''Mexico City''), (''type'', JString ''equity'')],
     JObject [(''id'', JString ''B3''), (''name'', JString ''B3 (Brazil)''), (''lat'', JFloat (-23.5505)), (''lon'', JFloat (-46.6333)), (''city'', JString (''S'' @ [CHR 0xC3, CHR 0x83, CHR 0xC2, CHR 0xA3] @ ''o Paulo'')), (''type'', JString ''equity'')],
     JObject [(''id'', JString ''SIX''), (''name'', JString ''SIX Swiss Exchange''), (''lat'', JFloat 47.3769), (''lon'', JFloat 8.5417), (''city'', JString ''Zurich''), (''type'', JString ''equity'')],
     JObject [(''id'', JString ''BINANCE''), (''name'', JString ''Binance (Virtual)''), (''lat'', JFloat 1.3521), (''lon'', JFloat 103.8198), (''city'', JString ''Singapore''), (''type'', JString ''crypto'')],
     JObject [(''id'', JString ''COINBASE''), (''name'', JString ''Coinbase''), (''lat'', JFloat 37.7749), (''lon'', JFloat (-122.4194)), (''city'', JString ''San Francisco''), (''type'', JString ''crypto'')],
     JObject [(''id'', JString ''KRAKEN''), (''name'', JString ''Kraken''), (''lat'', JFloat 37.7749), (''lon'', JFloat (-122.4194)), (''city'', JString ''San Francisco''), (''type'', JString ''crypto'')],
     JObject [(''id'', JString ''BITFINEX''), (''name'', JString ''Bitfinex''), (''lat'', JFloat 51.5074), (''lon'', JFloat (-0.1278)), (''city'', JString ''London''), (''type'', JString ''crypto'')],
     JObject [(''id'', JString ''HUOBI''), (''name'', JString ''Huobi''), (''lat'', JFloat 1.3521), (''lon'', JFloat 103.8198), (''city'', JString ''Singapore''), (''type'', JString ''crypto'')],
     JObject [(''id'', JString ''FTX''), (''name'', JString ''FTX (Historical)''), (''lat'', JFloat 25.7617), (''lon'', JFloat (-80.1918)), (''city'', JString ''Miami''), (''type'', JString ''crypto'')],
     JObject [(''id'', JString ''GEMINI''), (''name'', JString ''Gemini''), (''lat'', JFloat 40.7128), (''lon'', JFloat (-74.0060)), (''city'', JString ''New York''), (''type'', JString ''crypto'')],
     JObject [(''id'', JString ''BYBIT''), (''name'', JString ''Bybit''), (''lat'', JFloat 22.3193), (''lon'', JFloat 114.1694), (''city'', JString ''Hong Kong''), (''type'', JString ''crypto'')]
   ])]\<close>

text \<open>The entries of the catalogue: \<^verbatim>\<open>EXCHANGE_DATA["exchanges"]\<close>.\<close>

definition exchanges :: "json list" where
  "exchanges = (case get_item EXCHANGE_DATA ''exchanges'' of Some (JArray es) \<Rightarrow> es | _ \<Rightarrow> [])"

subsection \<open>Paths and templates\<close>

text \<open>\<^verbatim>\<open>PROJECT_ROOT\<close> and \<^verbatim>\<open>DIRECTORIES\<close>. A path is the list of its names under
  the root of drive \<^verbatim>\<open>D:\<close>, so \<open>[]\<close> is \<^verbatim>\<open>D:/\<close> itself: the root names a drive,
  which makes it an absolute path of a Windows file system.\<close>

type_synonym path = "string list"

definition PROJECT_ROOT :: path where
  "PROJECT_ROOT = [''Projects'', ''Latency-Arb-Simulator'']"

definition DIRECTORIES :: "string list" where
  "DIRECTORIES = [''src'', ''include'', ''data'', ''shaders'', ''build'', ''docs'', ''tests'']"

definition CMAKE_TEMPLATE :: string where
  \<open>CMAKE_TEMPLATE = 
''cmake_minimum_required(VERSION 3.15)
project(LatencyArbSimulator VERSION 1.0 LANGUAGES CXX)

set(CMAKE_CXX_STANDARD 17)
set(CMAKE_CXX_STANDARD_REQUIRED ON)

# Find vcpkg packages
find_package(glfw3 CONFIG REQUIRED)
find_package(glm CONFIG REQUIRED)
find_package(imgui CONFIG REQUIRED)
find_package(OpenGL REQUIRED)
find_package(Boost REQUIRED COMPONENTS graph)
find_package(nlohmann_json CONFIG REQUIRED)

# Source files
file(GLOB_RECURSE SOURCES "src/*.cpp")
file(GLOB_RECURSE HEADERS "include/*.h")

# Executable
add_executable(${PROJECT_NAME} ${SOURCES} ${HEADERS})

# Include directories
target_include_directories(${PROJECT_NAME} PRIVATE 
    ${CMAKE_SOURCE_DIR}/include
)

# Link libraries
target_link_libraries(${PROJECT_NAME} PRIVATE
    glfw
    glm::glm
    imgui::imgui
    OpenGL::GL
    Boost::graph
    nlohmann_json::nlohmann_json
)

# Copy data and shaders to build directory
file(COPY ${CMAKE_SOURCE_DIR}/data DESTINATION ${CMAKE_BINARY_DIR})
file(COPY ${CMAKE_SOURCE_DIR}/shaders DESTINATION ${CMAKE_BINARY_DIR})

# Set working directory for Visual Studio
set_property(TARGET ${PROJECT_NAME} PROPERTY VS_DEBUGGER_WORKING_DIRECTORY "${CMAKE_BINARY_DIR}")
''
\<close>

definition MAIN_CPP_TEMPLATE :: string where
  \<open>MAIN_CPP_TEMPLATE = 
''#include <iostream>
#include <GLFW/glfw3.h>
#include "imgui.h"
#include "imgui_impl_glfw.h"
#include "imgui_impl_opengl3.h"

int main() {
    std::cout << "Latency Arbitrage Simulator - Initializing..." << std::endl;
    
    // Initialize GLFW
    if (!glfwInit()) {
        std::cerr << "Failed to initialize GLFW" << std::endl;
        return -1;
    }
    
    // Create window
    glfwWindowHint(GLFW_CONTEXT_VERSION_MAJOR, 3);
    glfwWindowHint(GLFW_CONTEXT_VERSION_MINOR, 3);
    glfwWindowHint(GLFW_OPENGL_PROFILE, GLFW_OPENGL_CORE_PROFILE);
    
    GLFWwindow* window = glfwCreateWindow(1920, 1080, "Latency Arbitrage Simulator", nullptr, nullptr);
    if (!window) {
        std::cerr << "Failed to create GLFW window" << std::endl;
        glfwTerminate();
        return -1;
    }
    
    glfwMakeContextCurrent(window);
    glfwSwapInterval(1); // Enable vsync
    
    // Initialize Dear ImGui
    IMGUI_CHECKVERSION();
    ImGui::CreateContext();
    ImGuiIO& io = ImGui::GetIO();
    ImGui::StyleColorsDark();
    
    ImGui_ImplGlfw_InitForOpenGL(window, true);
    ImGui_ImplOpenGL3_Init("#version 330");
    
    std::cout << "Setup complete! Window created." << std::endl;
    
    // Main loop
    while (!glfwWindowShouldClose(window)) {
        glfwPollEvents();
        
        // Start ImGui frame
        ImGui_ImplOpenGL3_NewFrame();
        ImGui_ImplGlfw_NewFrame();
        ImGui::NewFrame();
        
        // Simple UI test
        ImGui::Begin("Latency Arbitrage Simulator");
        ImGui::Text("Application running!");
        ImGui::Text("FPS: %.1f", io.Framerate);
        if (ImGui::Button("Click Me!")) {
            std::cout << "Button clicked!" << std::endl;
        }
        ImGui::End();
        
        // Render
        ImGui::Render();
        int display_w, display_h;
        glfwGetFramebufferSize(window, &display_w, &display_h);
        glViewport(0, 0, display_w, display_h);
        glClearColor(0.1f, 0.1f, 0.1f, 1.0f);
        glClear(GL_COLOR_BUFFER_BIT);
        ImGui_ImplOpenGL3_RenderDrawData(ImGui::GetDrawData());
        
        glfwSwapBuffers(window);
    }
    
    // Cleanup
    ImGui_ImplOpenGL3_Shutdown();
    ImGui_ImplGlfw_Shutdown();
    ImGui::DestroyContext();
    glfwDestroyWindow(window);
    glfwTerminate();
    
    return 0;
}
''
\<close>

definition README_TEMPLATE :: string where
  \<open>README_TEMPLATE = 
''# Latency Arbitrage Simulator

Real-world latency arbitrage modeling across global cryptocurrency and traditional exchanges.

## Features
- 23+ global exchanges with real GPS coordinates
- Speed-of-light latency calculations
- Network topology optimization
- Interactive 3D globe visualization
- Arbitrage opportunity scanner

## Build Instructions

### Prerequisites
- Visual Studio Build Tools 2022
- CMake 3.15+
- vcpkg

### Building
```bash
mkdir build
cd build
cmake .. -DCMAKE_TOOLCHAIN_FILE=D:/vcpkg/scripts/buildsystems/vcpkg.cmake
cmake --build . --config Release
```

### Running
```bash
cd build/Release
./LatencyArbSimulator.exe
```

## Project Structure
```
latency-arb-simulator/
'' @ [CHR 0xC3, CHR 0xA2, CHR 0xE2, CHR 0x80, CHR 0x9D, CHR 0xC5, CHR 0x93, CHR 0xC3, CHR 0xA2, CHR 0xE2, CHR 0x80, CHR 0x9D, CHR 0xE2, CHR 0x82, CHR 0xAC, CHR 0xC3, CHR 0xA2, CHR 0xE2, CHR 0x80, CHR 0x9D, CHR 0xE2, CHR 0x82, CHR 0xAC] @ '' src/           # Source files
'' @ [CHR 0xC3, CHR 0xA2, CHR 0xE2, CHR 0x80, CHR 0x9D, CHR 0xC5, CHR 0x93, CHR 0xC3, CHR 0xA2, CHR 0xE2, CHR 0x80, CHR 0x9D, CHR 0xE2, CHR 0x82, CHR 0xAC, CHR 0xC3, CHR 0xA2, CHR 0xE2, CHR 0x80, CHR 0x9D, CHR 0xE2, CHR 0x82, CHR 0xAC] @ '' include/       # Header files
'' @ [CHR 0xC3, CHR 0xA2, CHR 0xE2, CHR 0x80, CHR 0x9D, CHR 0xC5, CHR 0x93, CHR 0xC3, CHR 0xA2, CHR 0xE2, CHR 0x80, CHR 0x9D, CHR 0xE2, CHR 0x82, CHR 0xAC, CHR 0xC3, CHR 0xA2, CHR 0xE2, CHR 0x80, CHR 0x9D, CHR 0xE2, CHR 0x82, CHR 0xAC] @ '' data/          # Exchange data (JSON)
'' @ [CHR 0xC3, CHR 0xA2, CHR 0xE2, CHR 0x80, CHR 0x9D, CHR 0xC5, CHR 0x93, CHR 0xC3, CHR 0xA2, CHR 0xE2, CHR 0x80, CHR 0x9D, CHR 0xE2, CHR 0x82, CHR 0xAC, CHR 0xC3, CHR 0xA2, CHR 0xE2, CHR 0x80, CHR 0x9D, CHR 0xE2, CHR 0x82, CHR 0xAC] @ '' shaders/       # OpenGL shaders
'' @ [CHR 0xC3, CHR 0xA2, CHR 0xE2, CHR 0x80, CHR 0x9D, CHR 0xE2, CHR 0x80, CHR 0x9D, CHR 0xC3, CHR 0xA2, CHR 0xE2, CHR 0x80, CHR 0x9D, CHR 0xE2, CHR 0x82, CHR 0xAC, CHR 0xC3, CHR 0xA2, CHR 0xE2, CHR 0x80, CHR 0x9D, CHR 0xE2, CHR 0x82, CHR 0xAC] @ '' build/         # Build output
```

## Tech Stack
- C++17
- OpenGL 3.3+
- Dear ImGui
- GLFW
- GLM
- Boost.Graph

## License
MIT
''
\<close>

definition VSCODE_SETTINGS :: json where
  "VSCODE_SETTINGS = JObject [
     (''C_Cpp.default.configurationProvider'', JString ''ms-vscode.cmake-tools''),
     (''cmake.configureSettings'', JObject [
        (''CMAKE_TOOLCHAIN_FILE'', JString ''D:/vcpkg/scripts/buildsystems/vcpkg.cmake'')]),
     (''files.associations'', JObject [
        (''*.h'', JString ''cpp''),
        (''*.cpp'', JString ''cpp'')])]"

section \<open>The file system and the process\<close>

text \<open>
  What the scripts can change: the nodes of the file system (a name is taken as written, and
  a file by the text or the JSON document written to it), the working directory of the
  process, the lines printed, and the URLs requested over the network. A statement that
  raises leaves the world as it was when it raised, so an outcome keeps the world in both
  cases.
\<close>

datatype content =
    Text string
  | Json_dump json nat

datatype node =
    Dir
  | File content

datatype os_error =
    FileNotFoundError
  | FileExistsError
  | NotADirectoryError
  | PermissionError

record world =
  fs :: "path \<Rightarrow> node option"
  cwd :: path
  stdout :: "string list"
  fetched :: "string list"

datatype outcome =
    Ok world
  | Raised os_error world

fun world_of :: "outcome \<Rightarrow> world" where
  "world_of (Ok w) = w"
| "world_of (Raised e w) = w"

fun raised :: "outcome \<Rightarrow> os_error option" where
  "raised (Ok w) = None"
| "raised (Raised e w) = Some e"

text \<open>A block of statements: the first that raises ends it.\<close>

fun run :: "(world \<Rightarrow> outcome) list \<Rightarrow> world \<Rightarrow> outcome" where
  "run [] w = Ok w"
| "run (stmt # stmts) w =
     (case stmt w of
        Ok w' \<Rightarrow> run stmts w'
      | Raised e w' \<Rightarrow> Raised e w')"

subsection \<open>The calls into \<^verbatim>\<open>pathlib\<close> and \<^verbatim>\<open>os\<close>\<close>

text \<open>\<^verbatim>\<open>Path.parent\<close> (the root is its own parent), \<^verbatim>\<open>Path.is_dir\<close>, and
  \<^verbatim>\<open>str(path)\<close>, which separates the names of a Windows path by backslashes.\<close>

definition parent :: "path \<Rightarrow> path" where
  "parent p = butlast p"

definition is_dir :: "path \<Rightarrow> world \<Rightarrow> bool" where
  "is_dir p w = (fs w p = Some Dir)"

definition path_str :: "path \<Rightarrow> string" where
  "path_str p =
     (if p = [] then ''D:'' @ [CHR 0x5C]
      else ''D:'' @ concat (map (\<lambda>name. CHR 0x5C # name) p))"

definition py_print :: "string \<Rightarrow> world \<Rightarrow> outcome" where
  "py_print s w = Ok (w\<lparr>stdout := stdout w @ [s]\<rparr>)"

text \<open>\<^verbatim>\<open>os.mkdir\<close>: the path must be new and its parent a directory. The errors are
  those of Windows, where a parent that is missing and a parent that is a regular file
  both give FileNotFoundError.\<close>

definition os_mkdir :: "path \<Rightarrow> world \<Rightarrow> outcome" where
  "os_mkdir p w =
     (if fs w p \<noteq> None then Raised FileExistsError w
      else if p = [] \<or> fs w (parent p) \<noteq> Some Dir then Raised FileNotFoundError w
      else Ok (w\<lparr>fs := (fs w)(p \<mapsto> Dir)\<rparr>))"

text \<open>
  \<^verbatim>\<open>Path.mkdir(parents, exist_ok)\<close>, as \<^verbatim>\<open>pathlib\<close> has it:
  \<^verbatim>\<open>
    try:
        os.mkdir(self, mode)
    except FileNotFoundError:
        if not parents or self.parent == self:
            raise
        self.parent.mkdir(parents=True, exist_ok=True)
        self.mkdir(mode, parents=False, exist_ok=exist_ok)
    except OSError:
        if not exist_ok or not self.is_dir():
            raise
  \<close>
\<close>

function Path_mkdir :: "path \<Rightarrow> bool \<Rightarrow> bool \<Rightarrow> world \<Rightarrow> outcome" where
  "Path_mkdir p parents exist_ok w =
     (case os_mkdir p w of
        Ok w' \<Rightarrow> Ok w'
      | Raised e w' \<Rightarrow>
          if e = FileNotFoundError then
            if \<not> parents \<or> parent p = p then Raised e w'
            else (case Path_mkdir (parent p) True True w' of
                    Ok w'' \<Rightarrow> Path_mkdir p False exist_ok w''
                  | Raised e' w'' \<Rightarrow> Raised e' w'')
          else
            if \<not> exist_ok \<or> \<not> is_dir p w' then Raised e w'
            else Ok w')"
  by pat_completeness auto
termination
proof (relation "measure (\<lambda>(p, parents, exist_ok, w). 2 * length p + (if parents then 1 else 0))")
  show "wf (measure (\<lambda>(p, parents, exist_ok, w). 2 * length p + (if parents then 1 else 0)))"
    by simp
next
  fix p :: path and parents exist_ok :: bool and w w' :: world and e :: os_error
  assume "\<not> (\<not> parents \<or> parent p = p)"
  then have "parents" and "p \<noteq> []"
    by (auto simp: parent_def)
  then show "((parent p, True, True, w'), (p, parents, exist_ok, w))
      \<in> measure (\<lambda>(p, parents, exist_ok, w). 2 * length p + (if parents then 1 else 0))"
    by (cases p rule: rev_cases) (simp_all add: parent_def)
next
  fix p :: path and parents exist_ok :: bool and w w' w'' :: world and e :: os_error
  assume "\<not> (\<not> parents \<or> parent p = p)"
  then show "((p, False, exist_ok, w''), (p, parents, exist_ok, w))
      \<in> measure (\<lambda>(p, parents, exist_ok, w). 2 * length p + (if parents then 1 else 0))"
    by simp
qed

text \<open>\<^verbatim>\<open>os.chdir\<close>.\<close>

definition os_chdir :: "path \<Rightarrow> world \<Rightarrow> outcome" where
  "os_chdir p w =
     (case fs w p of
        None \<Rightarrow> Raised FileNotFoundError w
      | Some (File c) \<Rightarrow> Raised NotADirectoryError w
      | Some Dir \<Rightarrow> Ok (w\<lparr>cwd := p\<rparr>))"

text \<open>
  \<^verbatim>\<open>with open(path, "w") as f:\<close> around one \<^verbatim>\<open>f.write\<close> or \<^verbatim>\<open>json.dump\<close>:
  the file is created or replaced by what is written. \<^verbatim>\<open>README.md\<close> is opened with
  the encoding \<^verbatim>\<open>utf-8\<close>; the other files take the default encoding and are given
  ASCII text only.
\<close>

definition open_w :: "path \<Rightarrow> content \<Rightarrow> world \<Rightarrow> outcome" where
  "open_w p c w =
     (case fs w p of
        Some Dir \<Rightarrow> Raised PermissionError w
      | _ \<Rightarrow>
          if p = [] \<or> fs w (parent p) \<noteq> Some Dir then Raised FileNotFoundError w
          else Ok (w\<lparr>fs := (fs w)(p \<mapsto> File c)\<rparr>))"

declare Path_mkdir.simps [simp del]

declare run.simps [simp del]

section \<open>\<^verbatim>\<open>setup.py\<close>: \<^verbatim>\<open>create_project_structure\<close>\<close>

definition create_project_structure :: "world \<Rightarrow> outcome" where
  \<open>create_project_structure =
     (let vscode_dir = PROJECT_ROOT @ [''.vscode''] in
      run (
       [py_print ([CHR 0xC3, CHR 0xB0, CHR 0xC5, CHR 0xB8, CHR 0xC5, CHR 0xA1, CHR 0xE2, CHR 0x82, CHR 0xAC]
          @ '' Creating Latency Arbitrage Simulator Project Structure...\<newline>''),
        Path_mkdir PROJECT_ROOT True True,
        os_chdir PROJECT_ROOT,
        py_print ([CHR 0xC3, CHR 0xB0, CHR 0xC5, CHR 0xB8, CHR 0xE2, CHR 0x80, CHR 0x9C]
          @ '' Creating directories...'')]
       @ concat (map (\<lambda>directory.
          [Path_mkdir (PROJECT_ROOT @ [directory]) False True,
           py_print (''   '' @ [CHR 0xC3, CHR 0xA2, CHR 0xC5, CHR 0x93, CHR 0xE2, CHR 0x80, CHR 0x9C]
             @ '' '' @ directory @ ''/'')]) DIRECTORIES)
       @
       [Path_mkdir vscode_dir False True,
        open_w (vscode_dir @ [''settings.json'']) (Json_dump VSCODE_SETTINGS 4),
        py_print (''   '' @ [CHR 0xC3, CHR 0xA2, CHR 0xC5, CHR 0x93, CHR 0xE2, CHR 0x80, CHR 0x9C]
          @ '' .vscode/''),
        py_print (''\<newline>'' @ [CHR 0xC3, CHR 0xB0, CHR 0xC5, CHR 0xB8, CHR 0xE2, CHR 0x80, CHR 0x9C]
          @ '' Creating CMakeLists.txt...''),
        open_w (PROJECT_ROOT @ [''CMakeLists.txt'']) (Text CMAKE_TEMPLATE),
        py_print (''   '' @ [CHR 0xC3, CHR 0xA2, CHR 0xC5, CHR 0x93, CHR 0xE2, CHR 0x80, CHR 0x9C]
          @ '' CMakeLists.txt''),
        py_print (''\<newline>'' @ [CHR 0xC3, CHR 0xB0, CHR 0xC5, CHR 0xB8, CHR 0xE2, CHR 0x80, CHR 0x9C]
          @ '' Creating main.cpp...''),
        open_w (PROJECT_ROOT @ [''src'', ''main.cpp'']) (Text MAIN_CPP_TEMPLATE),
        py_print (''   '' @ [CHR 0xC3, CHR 0xA2, CHR 0xC5, CHR 0x93, CHR 0xE2, CHR 0x80, CHR 0x9C]
          @ '' src/main.cpp''),
        py_print (''\<newline>'' @ [CHR 0xC3, CHR 0xB0, CHR 0xC5, CHR 0xB8, CHR 0xE2, CHR 0x80, CHR 0x9C]
          @ '' Creating exchanges.json...''),
        open_w (PROJECT_ROOT @ [''data'', ''exchanges.json'']) (Json_dump EXCHANGE_DATA 4),
        py_print (''   '' @ [CHR 0xC3, CHR 0xA2, CHR 0xC5, CHR 0x93, CHR 0xE2, CHR 0x80, CHR 0x9C]
          @ '' data/exchanges.json''),
        py_print (''\<newline>'' @ [CHR 0xC3, CHR 0xB0, CHR 0xC5, CHR 0xB8, CHR 0xE2, CHR 0x80, CHR 0x9C]
          @ '' Creating README.md...''),
        open_w (PROJECT_ROOT @ [''README.md'']) (Text README_TEMPLATE),
        py_print (''   '' @ [CHR 0xC3, CHR 0xA2, CHR 0xC5, CHR 0x93, CHR 0xE2, CHR 0x80, CHR 0x9C]
          @ '' README.md''),
        py_print (''\<newline>'' @ [CHR 0xC3, CHR 0xB0, CHR 0xC5, CHR 0xB8, CHR 0xE2, CHR 0x80, CHR 0x9C]
          @ '' Creating shader placeholders...''),
        open_w (PROJECT_ROOT @ [''shaders'', ''globe_vertex.glsl''])
          (Text ''// Vertex shader - to be implemented\<newline>''),
        open_w (PROJECT_ROOT @ [''shaders'', ''globe_fragment.glsl''])
          (Text ''// Fragment shader - to be implemented\<newline>''),
        py_print (''   '' @ [CHR 0xC3, CHR 0xA2, CHR 0xC5, CHR 0x93, CHR 0xE2, CHR 0x80, CHR 0x9C]
          @ '' shaders/globe_vertex.glsl''),
        py_print (''   '' @ [CHR 0xC3, CHR 0xA2, CHR 0xC5, CHR 0x93, CHR 0xE2, CHR 0x80, CHR 0x9C]
          @ '' shaders/globe_fragment.glsl''),
        py_print (''\<newline>'' @ [CHR 0xC3, CHR 0xB0, CHR 0xC5, CHR 0xB8, CHR 0xE2, CHR 0x80, CHR 0x9C]
          @ '' Creating .gitignore...''),
        open_w (PROJECT_ROOT @ [''.gitignore''])
          (Text ''build/\<newline>*.exe\<newline>*.obj\<newline>*.pdb\<newline>.vs/\<newline>.vscode/\<newline>''),
        py_print (''   '' @ [CHR 0xC3, CHR 0xA2, CHR 0xC5, CHR 0x93, CHR 0xE2, CHR 0x80, CHR 0x9C]
          @ '' .gitignore''),
        py_print (''\<newline>'' @ [CHR 0xC3, CHR 0xA2, CHR 0xC5, CHR 0x93, CHR 0xE2, CHR 0x80, CHR 0xA6]
          @ '' Project structure created successfully!''),
        py_print (''\<newline>'' @ [CHR 0xC3, CHR 0xB0, CHR 0xC5, CHR 0xB8, CHR 0xE2, CHR 0x80, CHR 0x9C]
          @ '' Project location: '' @ path_str PROJECT_ROOT),
        py_print (''\<newline>'' @ [CHR 0xC3, CHR 0xB0, CHR 0xC5, CHR 0xB8, CHR 0xC5, CHR 0xBD, CHR 0xC2, CHR 0xAF]
          @ '' Next steps:''),
        py_print ''   1. Install Visual Studio Build Tools 2022'',
        py_print ''   2. Install vcpkg and libraries'',
        py_print ''   3. Open VS Code in this folder'',
        py_print ''   4. Run: cmake --configure'',
        py_print ''   5. Run: cmake --build .'']))\<close>

section \<open>\<^verbatim>\<open>download_glad.py\<close>: \<^verbatim>\<open>download_glad\<close>\<close>

text \<open>The script has its own \<^verbatim>\<open>PROJECT_ROOT\<close>, the same path as that of
  \<^verbatim>\<open>setup.py\<close>. It imports \<^verbatim>\<open>urllib.request\<close> and \<^verbatim>\<open>zipfile\<close> and calls
  neither; \<^verbatim>\<open>GLAD_URL\<close> and \<^verbatim>\<open>zip_path\<close> are bound and not read.\<close>

definition GLAD_URL :: string where
  "GLAD_URL = ''https://github.com/Dav1dde/glad/archive/refs/heads/master.zip''"

definition download_glad :: "world \<Rightarrow> outcome" where
  \<open>download_glad =
     (let external_dir = PROJECT_ROOT @ [''external''];
          zip_path = external_dir @ [''glad.zip''];
          glad_dir = external_dir @ [''glad''];
          include_dir = glad_dir @ [''include''];
          glad_h_dir = include_dir @ [''glad''];
          khr_dir = include_dir @ [''KHR''];
          src_dir = glad_dir @ [''src'']
      in run
       [py_print ([CHR 0xF0, CHR 0x9F, CHR 0x93, CHR 0xA5] @ '' Downloading GLAD from GitHub...''),
        Path_mkdir external_dir False True,
        Path_mkdir glad_dir False True,
        Path_mkdir include_dir False True,
        Path_mkdir glad_h_dir False True,
        Path_mkdir khr_dir False True,
        Path_mkdir src_dir False True,
        py_print ([CHR 0xE2, CHR 0x9C, CHR 0x85] @ '' Created GLAD directory structure at ''
          @ path_str glad_dir),
        py_print (''\<newline>'' @ [CHR 0xE2, CHR 0x9A, CHR 0xA0, CHR 0xEF, CHR 0xB8, CHR 0x8F]
          @ ''  Manual Step Required:''),
        py_print ''1. Visit: https://glad.dav1d.de/'',
        py_print ''2. Settings:'',
        py_print ''   - Language: C/C++'',
        py_print ''   - Specification: OpenGL'',
        py_print ''   - gl: Version 3.3'',
        py_print ''   - Profile: Core'',
        py_print ''3. Click GENERATE'',
        py_print ''4. Download the ZIP'',
        py_print ''5. Extract and copy:'',
        py_print (''   - Copy glad/include/glad/* to '' @ path_str glad_h_dir @ ''/''),
        py_print (''   - Copy glad/include/KHR/* to '' @ path_str khr_dir @ ''/''),
        py_print (''   - Copy glad/src/glad.c to '' @ path_str src_dir @ ''/''),
        py_print ''\<newline>Then re-run CMake!''])\<close>

section \<open>The latency model of the specification\<close>

text \<open>
  The repository has no latency model: its sources are the two scripts above. The
  specification describes one (section 4.1), and the definitions of this section are
  written from those words, over the real numbers: rounding in double precision is not
  modelled.
\<close>

text \<open>Modelled from the spec: the ExchangeNode of its data model, "{id: unique string,
  display name, latitude, longitude (decimal degrees), venue type in {equity, derivatives,
  crypto}}", and the configuration of the latency model, a propagation speed (here in
  kilometres per second) and an inefficiency multiplier. The repository declares neither.\<close>

datatype venue = Equity | Derivatives | Crypto

record ExchangeNode =
  node_id :: string
  display_name :: string
  latitude :: real
  longitude :: real
  venue_type :: venue

record LatencyConfig =
  propagation_speed :: real
  inefficiency :: real

datatype latency_error = InvalidNodeError

text \<open>Modelled from the spec: the radius of the Earth in kilometres, which the spec does
  not name; 6371 is the radius that gives its 10,007.5 km between (0, 0) and (0, 90).\<close>

definition earth_radius_km :: real where
  "earth_radius_km = 6371"

text \<open>Modelled from the spec: decimal degrees as an angle.\<close>

definition radians :: "real \<Rightarrow> real" where
  "radians deg = deg * pi / 180"

text \<open>Modelled from the spec: the great-circle distance of two nodes "via the haversine
  formula on (lat, lon)", in kilometres; the repository has no such function.\<close>

definition haversine_km :: "ExchangeNode \<Rightarrow> ExchangeNode \<Rightarrow> real" where
  "haversine_km a b =
     (let phi1 = radians (latitude a);
          phi2 = radians (latitude b);
          dphi = radians (latitude b - latitude a);
          dlambda = radians (longitude b - longitude a);
          h = (sin (dphi / 2))\<^sup>2 + cos phi1 * cos phi2 * (sin (dlambda / 2))\<^sup>2
      in 2 * earth_radius_km * arcsin (sqrt h))"

text \<open>Modelled from the spec: \<^verbatim>\<open>latency(a, b, config) -> microseconds\<close>, which the
  repository does not have. It "converts distance to time using a configurable propagation
  speed", here in kilometres per second, "and an inefficiency multiplier", and "fails with
  InvalidNodeError if either node is absent from the registry snapshot passed in". For a
  speed of zero the quotient is the 0 of division in HOL; the spec gives no rule for it.\<close>

definition latency ::
  "ExchangeNode list \<Rightarrow> ExchangeNode \<Rightarrow> ExchangeNode \<Rightarrow> LatencyConfig \<Rightarrow> latency_error + real" where
  "latency registry a b config =
     (if a \<notin> set registry \<or> b \<notin> set registry then Inl InvalidNodeError
      else Inr (haversine_km a b * inefficiency config / propagation_speed config * 1000000))"

text \<open>Two nodes with the coordinates the catalogue gives NYSE and LSE, a registry of
  them, the configuration of the spec's scenario (200,000 km/s, inefficiency 1), and the
  two nodes of that scenario, at (0, 0) and (0, 90).\<close>

definition NYSE_node :: ExchangeNode where
  "NYSE_node = \<lparr>node_id = ''NYSE'', display_name = ''New York Stock Exchange'',
     latitude = 40.7069, longitude = - 74.0113, venue_type = Equity\<rparr>"

definition LSE_node :: ExchangeNode where
  "LSE_node = \<lparr>node_id = ''LSE'', display_name = ''London Stock Exchange'',
     latitude = 51.5149, longitude = - 0.0909, venue_type = Equity\<rparr>"

definition sample_registry :: "ExchangeNode list" where
  "sample_registry = [NYSE_node, LSE_node]"

definition scenario_config :: LatencyConfig where
  "scenario_config = \<lparr>propagation_speed = 200000, inefficiency = 1\<rparr>"

definition scenario_A :: ExchangeNode where
  "scenario_A = \<lparr>node_id = ''A'', display_name = ''A'',
     latitude = 0, longitude = 0, venue_type = Equity\<rparr>"

definition scenario_B :: ExchangeNode where
  "scenario_B = \<lparr>node_id = ''B'', display_name = ''B'',
     latitude = 0, longitude = 90, venue_type = Equity\<rparr>"

section \<open>What the claims about the scripts speak of\<close>

text \<open>
  A file system has a node only inside a directory: every path that exists, the root of
  the drive apart, has a directory as its parent.
\<close>

definition wf_fs :: "(path \<Rightarrow> node option) \<Rightarrow> bool" where
  "wf_fs f = (\<forall>p. p \<noteq> [] \<and> f p \<noteq> None \<longrightarrow> f (parent p) = Some Dir)"

text \<open>
  The directories and files that \<^verbatim>\<open>create_project_structure\<close> is said to leave under
  the project root, each file with what the script writes to it.
\<close>

definition project_layout :: "(path \<times> node) list" where
  "project_layout =
     [(PROJECT_ROOT @ [''src''], Dir),
      (PROJECT_ROOT @ [''include''], Dir),
      (PROJECT_ROOT @ [''data''], Dir),
      (PROJECT_ROOT @ [''shaders''], Dir),
      (PROJECT_ROOT @ [''build''], Dir),
      (PROJECT_ROOT @ [''docs''], Dir),
      (PROJECT_ROOT @ [''tests''], Dir),
      (PROJECT_ROOT @ [''.vscode''], Dir),
      (PROJECT_ROOT @ [''CMakeLists.txt''], File (Text CMAKE_TEMPLATE)),
      (PROJECT_ROOT @ [''src'', ''main.cpp''], File (Text MAIN_CPP_TEMPLATE)),
      (PROJECT_ROOT @ [''data'', ''exchanges.json''], File (Json_dump EXCHANGE_DATA 4)),
      (PROJECT_ROOT @ [''README.md''], File (Text README_TEMPLATE)),
      (PROJECT_ROOT @ [''.vscode'', ''settings.json''], File (Json_dump VSCODE_SETTINGS 4)),
      (PROJECT_ROOT @ [''shaders'', ''globe_vertex.glsl''],
         File (Text ''// Vertex shader - to be implemented\<newline>'')),
      (PROJECT_ROOT @ [''shaders'', ''globe_fragment.glsl''],
         File (Text ''// Fragment shader - to be implemented\<newline>'')),
      (PROJECT_ROOT @ [''.gitignore''],
         File (Text ''build/\<newline>*.exe\<newline>*.obj\<newline>*.pdb\<newline>.vs/\<newline>.vscode/\<newline>''))]"

text \<open>The project root is a directory and holds the whole layout.\<close>

definition layout_present :: "(path \<Rightarrow> node option) \<Rightarrow> bool" where
  "layout_present f \<longleftrightarrow>
     f PROJECT_ROOT = Some Dir \<and> (\<forall>(p, n) \<in> set project_layout. f p = Some n)"

text \<open>The six directories that \<^verbatim>\<open>download_glad\<close> is said to create.\<close>

definition glad_dirs :: "path list" where
  "glad_dirs =
     [PROJECT_ROOT @ [''external''],
      PROJECT_ROOT @ [''external'', ''glad''],
      PROJECT_ROOT @ [''external'', ''glad'', ''include''],
      PROJECT_ROOT @ [''external'', ''glad'', ''include'', ''glad''],
      PROJECT_ROOT @ [''external'', ''glad'', ''include'', ''KHR''],
      PROJECT_ROOT @ [''external'', ''glad'', ''src'']]"

text \<open>
  What a run of \<^verbatim>\<open>download_glad\<close> may do to the world: request nothing, stay in the
  working directory, print, and turn paths among \<open>ds\<close> that did not exist into
  directories. It holds of a run that raises as well, for the world it leaves.
\<close>

definition only_creates :: "path list \<Rightarrow> world \<Rightarrow> world \<Rightarrow> bool" where
  "only_creates ds w w' \<longleftrightarrow>
     fetched w' = fetched w \<and> cwd w' = cwd w \<and> (\<exists>out. stdout w' = stdout w @ out)
     \<and> (\<forall>q. fs w' q = fs w q \<or> (q \<in> set ds \<and> fs w q = None \<and> fs w' q = Some Dir))"

text \<open>
  Three worlds to run the scripts in: a drive with nothing on it, a drive where
  \<^verbatim>\<open>D:/Projects\<close> is a regular file, and a drive that has the project root as an
  empty directory.
\<close>

definition empty_drive :: world where
  "empty_drive = \<lparr>fs = [[] \<mapsto> Dir], cwd = [], stdout = [], fetched = []\<rparr>"

definition blocked_drive :: world where
  "blocked_drive =
     \<lparr>fs = [[] \<mapsto> Dir, [''Projects''] \<mapsto> File (Text ''notes'')],
      cwd = [], stdout = [], fetched = []\<rparr>"

definition rooted_drive :: world where
  "rooted_drive =
     \<lparr>fs = [[] \<mapsto> Dir, [''Projects''] \<mapsto> Dir, PROJECT_ROOT \<mapsto> Dir],
      cwd = [], stdout = [], fetched = []\<rparr>"

section \<open>The exchange catalogue\<close>

lemma exchanges_length: "length exchanges = 23"
  by (simp add: exchanges_def EXCHANGE_DATA_def)

text \<open>
  C1. Every entry of the catalogue that \<^verbatim>\<open>setup.py\<close> dumps to
  \<^verbatim>\<open>data/exchanges.json\<close> has exactly the six fields id, name, lat, lon, city and type:
  its keys are these six, each once. (The catalogue has 23 entries, so the statement is
  about every line of the literal.)
\<close>

theorem exchange_entries_six_fields:
  "\<forall>e \<in> set exchanges.
     distinct (keys e) \<and> set (keys e) = {''id'', ''name'', ''lat'', ''lon'', ''city'', ''type''}"
  by (simp add: exchanges_def EXCHANGE_DATA_def insert_commute)

theorem exchange_entries_six_fields_witness:
  "distinct (keys (exchanges ! 13))
     \<and> set (keys (exchanges ! 13)) = {''id'', ''name'', ''lat'', ''lon'', ''city'', ''type''}
     \<and> get_item (exchanges ! 13) ''id'' = Some (JString ''B3'')"
proof -
  have "exchanges ! 13 \<in> set exchanges"
    by (rule nth_mem) (simp add: exchanges_length)
  with exchange_entries_six_fields
  have "distinct (keys (exchanges ! 13))
     \<and> set (keys (exchanges ! 13)) = {''id'', ''name'', ''lat'', ''lon'', ''city'', ''type''}"
    by (rule bspec)
  moreover have "get_item (exchanges ! 13) ''id'' = Some (JString ''B3'')"
    by (simp add: exchanges_def EXCHANGE_DATA_def)
  ultimately show ?thesis
    by simp
qed

text \<open>
  C2. The ids of the catalogue are unique: every entry has an id, a string, and the list
  of the entries' ids has no repetition, so two entries at different places of the
  catalogue have different ids.
\<close>

theorem exchange_ids_unique:
  "list_all (\<lambda>e. \<exists>s. get_item e ''id'' = Some (JString s)) exchanges
   \<and> distinct (map (\<lambda>e. get_item e ''id'') exchanges)"
  by (simp add: exchanges_def EXCHANGE_DATA_def)

text \<open>
  C3. The type of every entry of the catalogue is one of equity, derivatives and crypto.
\<close>

theorem exchange_types_valid:
  "\<forall>e \<in> set exchanges.
     get_item e ''type'' \<in>
       {Some (JString ''equity''), Some (JString ''derivatives''), Some (JString ''crypto'')}"
  by (simp add: exchanges_def EXCHANGE_DATA_def)

theorem exchange_types_valid_witness:
  "get_item (exchanges ! 2) ''type'' = Some (JString ''derivatives'')
     \<and> get_item (exchanges ! 2) ''type'' \<in>
       {Some (JString ''equity''), Some (JString ''derivatives''), Some (JString ''crypto'')}"
proof -
  have "exchanges ! 2 \<in> set exchanges"
    by (rule nth_mem) (simp add: exchanges_length)
  with exchange_types_valid
  have "get_item (exchanges ! 2) ''type'' \<in>
       {Some (JString ''equity''), Some (JString ''derivatives''), Some (JString ''crypto'')}"
    by (rule bspec)
  moreover have "get_item (exchanges ! 2) ''type'' = Some (JString ''derivatives'')"
    by (simp add: exchanges_def EXCHANGE_DATA_def)
  ultimately show ?thesis
    by simp
qed

text \<open>
  C8. Every entry of the catalogue has a latitude and a longitude, both numbers, with the
  latitude in the closed interval from -90 to 90 and the longitude in the closed interval
  from -180 to 180.
\<close>

theorem exchange_coordinates_in_range:
  "\<forall>e \<in> set exchanges.
     (case (get_item e ''lat'', get_item e ''lon'') of
        (Some (JFloat lat), Some (JFloat lon)) \<Rightarrow>
          - 90 \<le> lat \<and> lat \<le> 90 \<and> - 180 \<le> lon \<and> lon \<le> 180
      | _ \<Rightarrow> False)"
  by (simp add: exchanges_def EXCHANGE_DATA_def)

theorem exchange_coordinates_in_range_witness:
  "get_item (exchanges ! 11) ''lat'' = Some (JFloat (- 33.8688))
     \<and> get_item (exchanges ! 11) ''lon'' = Some (JFloat 151.2093)
     \<and> (case (get_item (exchanges ! 11) ''lat'', get_item (exchanges ! 11) ''lon'') of
          (Some (JFloat lat), Some (JFloat lon)) \<Rightarrow>
            - 90 \<le> lat \<and> lat \<le> 90 \<and> - 180 \<le> lon \<and> lon \<le> 180
        | _ \<Rightarrow> False)"
proof -
  have "exchanges ! 11 \<in> set exchanges"
    by (rule nth_mem) (simp add: exchanges_length)
  with exchange_coordinates_in_range
  have "case (get_item (exchanges ! 11) ''lat'', get_item (exchanges ! 11) ''lon'') of
          (Some (JFloat lat), Some (JFloat lon)) \<Rightarrow>
            - 90 \<le> lat \<and> lat \<le> 90 \<and> - 180 \<le> lon \<and> lon \<le> 180
        | _ \<Rightarrow> False"
    by (rule bspec)
  moreover have "get_item (exchanges ! 11) ''lat'' = Some (JFloat (- 33.8688))
     \<and> get_item (exchanges ! 11) ''lon'' = Some (JFloat 151.2093)"
    by (simp add: exchanges_def EXCHANGE_DATA_def)
  ultimately show ?thesis
    by simp
qed

text \<open>
  C9. The catalogue has entries with different ids and the same coordinates: COINBASE and
  KRAKEN, BINANCE and HUOBI, HKEX and BYBIT. Each pair is two entries of the catalogue
  whose latitudes are the same number and whose longitudes are the same number.
\<close>

theorem coincident_coordinates_exist:
  "(\<exists>a b. a \<in> set exchanges \<and> b \<in> set exchanges
      \<and> get_item a ''id'' = Some (JString ''COINBASE'')
      \<and> get_item b ''id'' = Some (JString ''KRAKEN'')
      \<and> get_item a ''id'' \<noteq> get_item b ''id''
      \<and> get_item a ''lat'' \<noteq> None \<and> get_item a ''lat'' = get_item b ''lat''
      \<and> get_item a ''lon'' \<noteq> None \<and> get_item a ''lon'' = get_item b ''lon'')
   \<and> (\<exists>a b. a \<in> set exchanges \<and> b \<in> set exchanges
      \<and> get_item a ''id'' = Some (JString ''BINANCE'')
      \<and> get_item b ''id'' = Some (JString ''HUOBI'')
      \<and> get_item a ''id'' \<noteq> get_item b ''id''
      \<and> get_item a ''lat'' \<noteq> None \<and> get_item a ''lat'' = get_item b ''lat''
      \<and> get_item a ''lon'' \<noteq> None \<and> get_item a ''lon'' = get_item b ''lon'')
   \<and> (\<exists>a b. a \<in> set exchanges \<and> b \<in> set exchanges
      \<and> get_item a ''id'' = Some (JString ''HKEX'')
      \<and> get_item b ''id'' = Some (JString ''BYBIT'')
      \<and> get_item a ''id'' \<noteq> get_item b ''id''
      \<and> get_item a ''lat'' \<noteq> None \<and> get_item a ''lat'' = get_item b ''lat''
      \<and> get_item a ''lon'' \<noteq> None \<and> get_item a ''lon'' = get_item b ''lon'')"
proof (intro conjI)
  show "\<exists>a b. a \<in> set exchanges \<and> b \<in> set exchanges
      \<and> get_item a ''id'' = Some (JString ''COINBASE'')
      \<and> get_item b ''id'' = Some (JString ''KRAKEN'')
      \<and> get_item a ''id'' \<noteq> get_item b ''id''
      \<and> get_item a ''lat'' \<noteq> None \<and> get_item a ''lat'' = get_item b ''lat''
      \<and> get_item a ''lon'' \<noteq> None \<and> get_item a ''lon'' = get_item b ''lon''"
    by (rule exI[of _ "exchanges ! 16"], rule exI[of _ "exchanges ! 17"])
      (simp add: exchanges_def EXCHANGE_DATA_def)
  show "\<exists>a b. a \<in> set exchanges \<and> b \<in> set exchanges
      \<and> get_item a ''id'' = Some (JString ''BINANCE'')
      \<and> get_item b ''id'' = Some (JString ''HUOBI'')
      \<and> get_item a ''id'' \<noteq> get_item b ''id''
      \<and> get_item a ''lat'' \<noteq> None \<and> get_item a ''lat'' = get_item b ''lat''
      \<and> get_item a ''lon'' \<noteq> None \<and> get_item a ''lon'' = get_item b ''lon''"
    by (rule exI[of _ "exchanges ! 15"], rule exI[of _ "exchanges ! 19"])
      (simp add: exchanges_def EXCHANGE_DATA_def)
  show "\<exists>a b. a \<in> set exchanges \<and> b \<in> set exchanges
      \<and> get_item a ''id'' = Some (JString ''HKEX'')
      \<and> get_item b ''id'' = Some (JString ''BYBIT'')
      \<and> get_item a ''id'' \<noteq> get_item b ''id''
      \<and> get_item a ''lat'' \<noteq> None \<and> get_item a ''lat'' = get_item b ''lat''
      \<and> get_item a ''lon'' \<noteq> None \<and> get_item a ''lon'' = get_item b ''lon''"
    by (rule exI[of _ "exchanges ! 6"], rule exI[of _ "exchanges ! 22"])
      (simp add: exchanges_def EXCHANGE_DATA_def)
qed

section \<open>Running the statements of a script\<close>

lemma Path_mkdir_flat:
  "Path_mkdir p False exist_ok w =
     (if fs w p = None then
        (if p = [] \<or> fs w (parent p) \<noteq> Some Dir then Raised FileNotFoundError w
         else Ok (w\<lparr>fs := (fs w)(p \<mapsto> Dir)\<rparr>))
      else if exist_ok \<and> fs w p = Some Dir then Ok w
      else Raised FileExistsError w)"
  by (subst Path_mkdir.simps) (auto simp: os_mkdir_def is_dir_def)

lemma Path_mkdir_is_dir:
  "fs w p = Some Dir \<Longrightarrow> Path_mkdir p parents True w = Ok w"
  by (subst Path_mkdir.simps) (simp add: os_mkdir_def is_dir_def)

lemma Path_mkdir_new:
  "fs w p = None \<Longrightarrow> p \<noteq> [] \<Longrightarrow> fs w (parent p) = Some Dir \<Longrightarrow>
     Path_mkdir p parents exist_ok w = Ok (w\<lparr>fs := (fs w)(p \<mapsto> Dir)\<rparr>)"
  by (subst Path_mkdir.simps) (simp add: os_mkdir_def)


lemma run_print:
  "run (py_print s # stmts) \<lparr>fs = f, cwd = c, stdout = out, fetched = n\<rparr> =
   run stmts \<lparr>fs = f, cwd = c, stdout = out @ [s], fetched = n\<rparr>"
  by (simp add: run.simps py_print_def)

lemma run_mkdir_present:
  "f p = Some Dir \<Longrightarrow>
   run (Path_mkdir p parents True # stmts) \<lparr>fs = f, cwd = c, stdout = out, fetched = n\<rparr> =
   run stmts \<lparr>fs = f, cwd = c, stdout = out, fetched = n\<rparr>"
  by (simp add: run.simps Path_mkdir_is_dir)

lemma run_mkdir_new:
  "f p = None \<Longrightarrow> p \<noteq> [] \<Longrightarrow> f (parent p) = Some Dir \<Longrightarrow>
   run (Path_mkdir p parents exist_ok # stmts) \<lparr>fs = f, cwd = c, stdout = out, fetched = n\<rparr> =
   run stmts \<lparr>fs = f(p \<mapsto> Dir), cwd = c, stdout = out, fetched = n\<rparr>"
  by (simp add: run.simps Path_mkdir_new)

lemma run_chdir:
  "f p = Some Dir \<Longrightarrow>
   run (os_chdir p # stmts) \<lparr>fs = f, cwd = c, stdout = out, fetched = n\<rparr> =
   run stmts \<lparr>fs = f, cwd = p, stdout = out, fetched = n\<rparr>"
  by (simp add: run.simps os_chdir_def)

lemma run_open_w:
  "f p \<noteq> Some Dir \<Longrightarrow> p \<noteq> [] \<Longrightarrow> f (parent p) = Some Dir \<Longrightarrow>
   run (open_w p c # stmts) \<lparr>fs = f, cwd = d, stdout = out, fetched = n\<rparr> =
   run stmts \<lparr>fs = f(p \<mapsto> File c), cwd = d, stdout = out, fetched = n\<rparr>"
  by (simp add: run.simps open_w_def split: option.splits node.splits)

lemma run_open_w_same:
  "f p = Some (File c) \<Longrightarrow> p \<noteq> [] \<Longrightarrow> f (parent p) = Some Dir \<Longrightarrow>
   run (open_w p c # stmts) \<lparr>fs = f, cwd = d, stdout = out, fetched = n\<rparr> =
   run stmts \<lparr>fs = f, cwd = d, stdout = out, fetched = n\<rparr>"
  by (simp add: run_open_w fun_upd_idem)

lemma run_Nil: "run [] w = Ok w"
  by (simp add: run.simps)

lemma parent_append: "ys \<noteq> [] \<Longrightarrow> parent (xs @ ys) = xs @ butlast ys"
  by (simp add: parent_def butlast_append)

lemma rerun:
  assumes "layout_present f"
  shows "\<exists>out'. create_project_structure \<lparr>fs = f, cwd = c, stdout = out, fetched = n\<rparr>
           = Ok \<lparr>fs = f, cwd = PROJECT_ROOT, stdout = out', fetched = n\<rparr>"
  using assms
  unfolding layout_present_def project_layout_def create_project_structure_def Let_def DIRECTORIES_def
  by (simp add: run_print run_mkdir_present run_chdir run_open_w_same run_Nil parent_append)

lemma Path_mkdir_Ok:
  "Path_mkdir p parents exist_ok w = Ok w' \<Longrightarrow>
     fs w' p = Some Dir \<and> cwd w' = cwd w \<and> stdout w' = stdout w \<and> fetched w' = fetched w"
proof (induction p parents exist_ok w arbitrary: w' rule: Path_mkdir.induct)
  case (1 p parents exist_ok w)
  show ?case
  proof (cases "os_mkdir p w")
    case (Ok w1)
    with "1.prems" have "w' = w1"
      by (subst (asm) Path_mkdir.simps) simp
    with Ok show ?thesis
      by (auto simp: os_mkdir_def split: if_splits)
  next
    case (Raised e w1)
    then have w1: "w1 = w"
      by (auto simp: os_mkdir_def split: if_splits)
    show ?thesis
    proof (cases "e = FileNotFoundError")
      case True
      with "1.prems" Raised have go: "\<not> (\<not> parents \<or> parent p = p)"
        by (subst (asm) Path_mkdir.simps) (auto split: if_splits)
      with "1.prems" Raised True obtain w2 where
        up: "Path_mkdir (parent p) True True w1 = Ok w2" and
        self: "Path_mkdir p False exist_ok w2 = Ok w'"
        by (subst (asm) Path_mkdir.simps) (auto split: if_splits outcome.splits)
      from "1.IH"(1)[OF Raised True go up] "1.IH"(2)[OF Raised True go up self] w1
      show ?thesis by simp
    next
      case False
      with "1.prems" Raised w1 show ?thesis
        by (subst (asm) Path_mkdir.simps) (auto simp: is_dir_def split: if_splits)
    qed
  qed
qed

lemma run_Cons_Ok_D:
  "run (stmt # stmts) w = Ok w'' \<Longrightarrow> \<exists>w'. stmt w = Ok w' \<and> run stmts w' = Ok w''"
  by (cases "stmt w") (simp_all add: run.simps)

lemma run_mkdir_parents_D:
  assumes "run (Path_mkdir p True True # stmts) \<lparr>fs = f, cwd = c, stdout = out, fetched = n\<rparr> = Ok wF"
  shows "\<exists>f'. f' p = Some Dir \<and> run stmts \<lparr>fs = f', cwd = c, stdout = out, fetched = n\<rparr> = Ok wF"
proof -
  from run_Cons_Ok_D[OF assms] obtain w' where
    1: "Path_mkdir p True True \<lparr>fs = f, cwd = c, stdout = out, fetched = n\<rparr> = Ok w'" and
    2: "run stmts w' = Ok wF"
    by blast
  from Path_mkdir_Ok[OF 1] have "w' = \<lparr>fs = fs w', cwd = c, stdout = out, fetched = n\<rparr>" "fs w' p = Some Dir"
    by simp_all
  with 2 show ?thesis
    by metis
qed

lemma run_mkdir_D:
  assumes "run (Path_mkdir p False True # stmts) \<lparr>fs = f, cwd = c, stdout = out, fetched = n\<rparr> = Ok wF"
  shows "run stmts \<lparr>fs = f(p \<mapsto> Dir), cwd = c, stdout = out, fetched = n\<rparr> = Ok wF"
  using run_Cons_Ok_D[OF assms]
  by (auto simp: Path_mkdir_flat fun_upd_idem split: if_splits)

lemma run_open_w_D:
  assumes "run (open_w p x # stmts) \<lparr>fs = f, cwd = c, stdout = out, fetched = n\<rparr> = Ok wF"
  shows "run stmts \<lparr>fs = f(p \<mapsto> File x), cwd = c, stdout = out, fetched = n\<rparr> = Ok wF"
  using run_Cons_Ok_D[OF assms]
  by (auto simp: open_w_def split: if_splits option.splits node.splits)

lemma run_chdir_D:
  assumes "run (os_chdir p # stmts) \<lparr>fs = f, cwd = c, stdout = out, fetched = n\<rparr> = Ok wF"
  shows "run stmts \<lparr>fs = f, cwd = p, stdout = out, fetched = n\<rparr> = Ok wF"
  using run_Cons_Ok_D[OF assms]
  by (auto simp: os_chdir_def split: if_splits option.splits node.splits)

lemma first_run:
  assumes "create_project_structure \<lparr>fs = f, cwd = c, stdout = out, fetched = n\<rparr> = Ok wF"
  shows "layout_present (fs wF) \<and> cwd wF = PROJECT_ROOT \<and> fetched wF = n"
  using assms
  unfolding create_project_structure_def Let_def DIRECTORIES_def
  apply (simp add: run_print)
  apply (drule run_mkdir_parents_D)
  apply (elim exE conjE)
  apply (drule run_chdir_D)
  apply ((drule run_mkdir_D | drule run_open_w_D | simp only: run_print)+)
  apply (simp add: run_Nil)
  apply (auto simp: layout_present_def project_layout_def)
  done

subsection \<open>A run on a drive without the project root\<close>

lemma run_mkdir_parents_new:
  assumes "f p = None" "f (parent p) = None" "parent p \<noteq> []" "f (parent (parent p)) = Some Dir"
  shows "run (Path_mkdir p True exist_ok # stmts) \<lparr>fs = f, cwd = c, stdout = out, fetched = n\<rparr> =
         run stmts \<lparr>fs = f(parent p \<mapsto> Dir, p \<mapsto> Dir), cwd = c, stdout = out, fetched = n\<rparr>"
proof -
  let ?w = "\<lparr>fs = f, cwd = c, stdout = out, fetched = n\<rparr>"
  from assms have ne: "p \<noteq> []" "parent p \<noteq> p"
    by (auto simp: parent_def)
  have up: "Path_mkdir (parent p) True True ?w = Ok (?w\<lparr>fs := f(parent p \<mapsto> Dir)\<rparr>)"
    using assms by (simp add: Path_mkdir_new)
  have self: "Path_mkdir p False exist_ok (?w\<lparr>fs := f(parent p \<mapsto> Dir)\<rparr>)
      = Ok \<lparr>fs = f(parent p \<mapsto> Dir, p \<mapsto> Dir), cwd = c, stdout = out, fetched = n\<rparr>"
    using assms ne by (simp add: Path_mkdir_new)
  have "Path_mkdir p True exist_ok ?w
      = Ok \<lparr>fs = f(parent p \<mapsto> Dir, p \<mapsto> Dir), cwd = c, stdout = out, fetched = n\<rparr>"
    using assms ne up self by (subst Path_mkdir.simps) (simp add: os_mkdir_def)
  then show ?thesis
    by (simp add: run.simps)
qed

lemma wf_fs_absent_child:
  "wf_fs f \<Longrightarrow> f p = None \<Longrightarrow> f (p @ [x]) = None"
  unfolding wf_fs_def parent_def
  by (metis butlast_snoc option.distinct(1) snoc_eq_iff_butlast)


lemma fresh_run:
  assumes wf: "wf_fs f" and drive: "f [] = Some Dir"
    and par: "f (parent PROJECT_ROOT) = None \<or> f (parent PROJECT_ROOT) = Some Dir"
    and absent: "f PROJECT_ROOT = None"
  shows "\<exists>out'. create_project_structure \<lparr>fs = f, cwd = c, stdout = out, fetched = n\<rparr>
           = Ok \<lparr>fs = f ++ map_of ((parent PROJECT_ROOT, Dir) # (PROJECT_ROOT, Dir) # project_layout),
                 cwd = PROJECT_ROOT, stdout = out', fetched = n\<rparr>"
proof -
  let ?built = "\<lambda>g::path \<Rightarrow> node option. g(PROJECT_ROOT \<mapsto> Dir,
            PROJECT_ROOT @ [''src''] \<mapsto> Dir,
            PROJECT_ROOT @ [''include''] \<mapsto> Dir,
            PROJECT_ROOT @ [''data''] \<mapsto> Dir,
            PROJECT_ROOT @ [''shaders''] \<mapsto> Dir,
            PROJECT_ROOT @ [''build''] \<mapsto> Dir,
            PROJECT_ROOT @ [''docs''] \<mapsto> Dir,
            PROJECT_ROOT @ [''tests''] \<mapsto> Dir,
            PROJECT_ROOT @ [''.vscode''] \<mapsto> Dir,
            PROJECT_ROOT @ [''.vscode'', ''settings.json''] \<mapsto> File (Json_dump VSCODE_SETTINGS 4),
            PROJECT_ROOT @ [''CMakeLists.txt''] \<mapsto> File (Text CMAKE_TEMPLATE),
            PROJECT_ROOT @ [''src'', ''main.cpp''] \<mapsto> File (Text MAIN_CPP_TEMPLATE),
            PROJECT_ROOT @ [''data'', ''exchanges.json''] \<mapsto> File (Json_dump EXCHANGE_DATA 4),
            PROJECT_ROOT @ [''README.md''] \<mapsto> File (Text README_TEMPLATE),
            PROJECT_ROOT @ [''shaders'', ''globe_vertex.glsl''] \<mapsto>
              File (Text ''// Vertex shader - to be implemented\<newline>''),
            PROJECT_ROOT @ [''shaders'', ''globe_fragment.glsl''] \<mapsto>
              File (Text ''// Fragment shader - to be implemented\<newline>''),
            PROJECT_ROOT @ [''.gitignore''] \<mapsto>
              File (Text ''build/\<newline>*.exe\<newline>*.obj\<newline>*.pdb\<newline>.vs/\<newline>.vscode/\<newline>''))"
  let ?w = "\<lparr>fs = f, cwd = c, stdout = out, fetched = n\<rparr>"
  have one: "f (PROJECT_ROOT @ [x]) = None" for x
    using wf absent by (rule wf_fs_absent_child)
  have two: "f (PROJECT_ROOT @ [x, y]) = None" for x y
    using wf_fs_absent_child[OF wf one, of x y] by simp
  have pr: "parent PROJECT_ROOT = [''Projects'']"
    by (simp add: parent_def PROJECT_ROOT_def)
  have pp: "parent [''Projects''] = []"
    by (simp add: parent_def)
  have ne: "PROJECT_ROOT \<noteq> []"
    by (simp add: PROJECT_ROOT_def)
  have layout: "?built g = g ++ map_of ((PROJECT_ROOT, Dir) # project_layout)" for g
    by (rule ext) (simp add: map_add_def project_layout_def PROJECT_ROOT_def)
  have "\<exists>out'. create_project_structure ?w
      = Ok \<lparr>fs = ?built (f([''Projects''] \<mapsto> Dir)), cwd = PROJECT_ROOT, stdout = out', fetched = n\<rparr>"
    using par
  proof
    assume "f (parent PROJECT_ROOT) = None"
    then show ?thesis
      using drive absent one two
      unfolding create_project_structure_def Let_def DIRECTORIES_def
      by (simp add: run_print run_mkdir_parents_new run_mkdir_new run_chdir run_open_w run_Nil
          parent_append pr pp)
  next
    assume dir: "f (parent PROJECT_ROOT) = Some Dir"
    then have same: "f([''Projects''] \<mapsto> Dir) = f"
      by (simp add: pr fun_upd_idem)
    have "\<exists>out'. create_project_structure ?w
        = Ok \<lparr>fs = ?built f, cwd = PROJECT_ROOT, stdout = out', fetched = n\<rparr>"
      using dir drive absent one two
      unfolding create_project_structure_def Let_def DIRECTORIES_def
      by (simp add: run_print run_mkdir_new run_chdir run_open_w run_Nil parent_append pr pp ne)
    then show ?thesis
      unfolding same .
  qed
  moreover have "?built (f([''Projects''] \<mapsto> Dir))
      = f ++ map_of ((parent PROJECT_ROOT, Dir) # (PROJECT_ROOT, Dir) # project_layout)"
    unfolding layout pr by (rule ext) (simp add: map_add_def project_layout_def PROJECT_ROOT_def)
  ultimately show ?thesis
    by simp
qed

subsection \<open>Statements that only create directories\<close>

lemma only_creates_refl: "only_creates ds w w"
  by (simp add: only_creates_def)

lemma only_creates_trans:
  assumes "only_creates ds w w'" and "only_creates ds w' w''"
  shows "only_creates ds w w''"
  unfolding only_creates_def
proof (intro conjI allI)
  show "fetched w'' = fetched w" and "cwd w'' = cwd w"
    using assms by (simp_all add: only_creates_def)
  from assms obtain out out' where "stdout w' = stdout w @ out" "stdout w'' = stdout w' @ out'"
    by (auto simp: only_creates_def)
  then have "stdout w'' = stdout w @ (out @ out')"
    by simp
  then show "\<exists>out. stdout w'' = stdout w @ out" ..
  show "fs w'' q = fs w q \<or> (q \<in> set ds \<and> fs w q = None \<and> fs w'' q = Some Dir)" for q
    using assms unfolding only_creates_def by (metis option.distinct(1))
qed

lemma only_creates_print: "only_creates ds w (world_of (py_print s w))"
  by (simp add: only_creates_def py_print_def)

lemma only_creates_mkdir:
  "p \<in> set ds \<Longrightarrow> only_creates ds w (world_of (Path_mkdir p False True w))"
  by (simp add: only_creates_def Path_mkdir_flat)

lemma run_only_creates:
  assumes "\<forall>stmt \<in> set stmts. \<forall>w. only_creates ds w (world_of (stmt w))"
  shows "only_creates ds w (world_of (run stmts w))"
  using assms
proof (induction stmts arbitrary: w)
  case Nil
  show ?case
    by (simp add: run.simps only_creates_refl)
next
  case (Cons stmt stmts)
  then have step: "only_creates ds w (world_of (stmt w))"
    by simp
  show ?case
  proof (cases "stmt w")
    case (Ok w')
    with step have "only_creates ds w w'"
      by simp
    moreover from Cons have "only_creates ds w' (world_of (run stmts w'))"
      by simp
    ultimately show ?thesis
      using Ok by (simp add: run.simps only_creates_trans)
  next
    case (Raised e w')
    with step show ?thesis
      by (simp add: run.simps)
  qed
qed

lemma download_glad_only_creates:
  "only_creates glad_dirs w (world_of (download_glad w))"
  unfolding download_glad_def Let_def
  by (rule run_only_creates) (simp add: only_creates_print only_creates_mkdir glad_dirs_def)

lemma run_mkdir_ok:
  assumes "\<forall>x. f p \<noteq> Some (File x)" and "p \<noteq> []" and "f (parent p) = Some Dir"
  shows "run (Path_mkdir p False True # stmts) \<lparr>fs = f, cwd = c, stdout = out, fetched = n\<rparr> =
         run stmts \<lparr>fs = f(p \<mapsto> Dir), cwd = c, stdout = out, fetched = n\<rparr>"
proof (cases "f p")
  case None
  with assms show ?thesis
    by (simp add: run_mkdir_new)
next
  case (Some nd)
  with assms have "f p = Some Dir"
    by (cases nd) simp_all
  then show ?thesis
    by (simp add: run_mkdir_present fun_upd_idem)
qed

lemma download_glad_run:
  assumes root: "f PROJECT_ROOT = Some Dir"
    and free: "\<forall>p \<in> set glad_dirs. \<forall>x. f p \<noteq> Some (File x)"
  shows "\<exists>lines. download_glad \<lparr>fs = f, cwd = c, stdout = out, fetched = n\<rparr>
           = Ok \<lparr>fs = f ++ map_of (map (\<lambda>p. (p, Dir)) glad_dirs), cwd = c,
                 stdout = out @ lines, fetched = n\<rparr>
         \<and> ''1. Visit: https://glad.dav1d.de/'' \<in> set lines
         \<and> ''   - Copy glad/include/glad/* to ''
               @ path_str (PROJECT_ROOT @ [''external'', ''glad'', ''include'', ''glad'']) @ ''/'' \<in> set lines
         \<and> ''   - Copy glad/include/KHR/* to ''
               @ path_str (PROJECT_ROOT @ [''external'', ''glad'', ''include'', ''KHR'']) @ ''/'' \<in> set lines
         \<and> ''   - Copy glad/src/glad.c to ''
               @ path_str (PROJECT_ROOT @ [''external'', ''glad'', ''src'']) @ ''/'' \<in> set lines"
proof -
  let ?built = "f(PROJECT_ROOT @ [''external''] \<mapsto> Dir,
      PROJECT_ROOT @ [''external'', ''glad''] \<mapsto> Dir,
      PROJECT_ROOT @ [''external'', ''glad'', ''include''] \<mapsto> Dir,
      PROJECT_ROOT @ [''external'', ''glad'', ''include'', ''glad''] \<mapsto> Dir,
      PROJECT_ROOT @ [''external'', ''glad'', ''include'', ''KHR''] \<mapsto> Dir,
      PROJECT_ROOT @ [''external'', ''glad'', ''src''] \<mapsto> Dir)"
  have "\<exists>lines. download_glad \<lparr>fs = f, cwd = c, stdout = out, fetched = n\<rparr>
           = Ok \<lparr>fs = ?built, cwd = c, stdout = out @ lines, fetched = n\<rparr>
         \<and> ''1. Visit: https://glad.dav1d.de/'' \<in> set lines
         \<and> ''   - Copy glad/include/glad/* to ''
               @ path_str (PROJECT_ROOT @ [''external'', ''glad'', ''include'', ''glad'']) @ ''/'' \<in> set lines
         \<and> ''   - Copy glad/include/KHR/* to ''
               @ path_str (PROJECT_ROOT @ [''external'', ''glad'', ''include'', ''KHR'']) @ ''/'' \<in> set lines
         \<and> ''   - Copy glad/src/glad.c to ''
               @ path_str (PROJECT_ROOT @ [''external'', ''glad'', ''src'']) @ ''/'' \<in> set lines"
    using assms unfolding download_glad_def Let_def glad_dirs_def
    by (simp add: run_print run_mkdir_ok run_Nil parent_append)
  moreover have "?built = f ++ map_of (map (\<lambda>p. (p, Dir)) glad_dirs)"
    by (rule ext) (simp add: map_add_def glad_dirs_def)
  ultimately show ?thesis
    by simp
qed

section \<open>\<^verbatim>\<open>create_project_structure\<close> on a drive without the project\<close>

lemma run_mkdir_blocked:
  assumes "f p = None" and "f (parent p) = Some (File x)"
  shows "run (Path_mkdir p True True # stmts) \<lparr>fs = f, cwd = c, stdout = out, fetched = n\<rparr> =
         Raised FileExistsError \<lparr>fs = f, cwd = c, stdout = out, fetched = n\<rparr>"
proof -
  let ?w = "\<lparr>fs = f, cwd = c, stdout = out, fetched = n\<rparr>"
  from assms have ne: "parent p \<noteq> p"
    by auto
  have up: "Path_mkdir (parent p) True True ?w = Raised FileExistsError ?w"
    using assms by (subst Path_mkdir.simps) (simp add: os_mkdir_def is_dir_def)
  have "Path_mkdir p True True ?w = Raised FileExistsError ?w"
    using assms ne up by (subst Path_mkdir.simps) (simp add: os_mkdir_def)
  then show ?thesis
    by (simp add: run.simps)
qed

lemma wf_fs_empty_drive: "wf_fs (fs empty_drive)"
  by (simp add: wf_fs_def empty_drive_def)

lemma empty_drive_root_absent:
  "fs empty_drive [] = Some Dir" "fs empty_drive (parent PROJECT_ROOT) = None"
  "fs empty_drive PROJECT_ROOT = None"
  by (simp_all add: empty_drive_def PROJECT_ROOT_def parent_def)

lemma empty_drive_run:
  "\<exists>out'. create_project_structure empty_drive
      = Ok \<lparr>fs = fs empty_drive
              ++ map_of ((parent PROJECT_ROOT, Dir) # (PROJECT_ROOT, Dir) # project_layout),
            cwd = PROJECT_ROOT, stdout = out', fetched = []\<rparr>"
proof -
  have e: "empty_drive = \<lparr>fs = fs empty_drive, cwd = [], stdout = [], fetched = []\<rparr>"
    by (simp add: empty_drive_def)
  have par: "fs empty_drive (parent PROJECT_ROOT) = None
      \<or> fs empty_drive (parent PROJECT_ROOT) = Some Dir"
    using empty_drive_root_absent(2) by simp
  from fresh_run[OF wf_fs_empty_drive empty_drive_root_absent(1) par empty_drive_root_absent(3),
      of "[]" "[]" "[]"]
  show ?thesis
    by (simp only: e [symmetric])
qed

text \<open>
  C4, as amended. On a file system where drive D: exists, \<^verbatim>\<open>D:/Projects\<close> is a
  directory or absent, and the project root is absent, \<^verbatim>\<open>create_project_structure\<close>
  returns; it has made \<^verbatim>\<open>D:/Projects\<close> a directory if it was absent, made the project
  root a directory, made the eight directories and written the eight files of
  \<open>project_layout\<close>, each file with the content the script gives it, and left every other
  path as it was. The working directory is then the project root, and nothing was
  requested over the network.
\<close>

theorem create_project_structure_fresh:
  assumes "wf_fs (fs w)" and "fs w [] = Some Dir"
    and "fs w (parent PROJECT_ROOT) = None \<or> fs w (parent PROJECT_ROOT) = Some Dir"
    and "fs w PROJECT_ROOT = None"
  shows "\<exists>w'. create_project_structure w = Ok w'
    \<and> fs w' = fs w ++ map_of ((parent PROJECT_ROOT, Dir) # (PROJECT_ROOT, Dir) # project_layout)
    \<and> cwd w' = PROJECT_ROOT \<and> fetched w' = fetched w"
proof -
  obtain f c out n where w: "w = \<lparr>fs = f, cwd = c, stdout = out, fetched = n\<rparr>"
    by (cases w) simp
  from assms show ?thesis
    unfolding w using fresh_run[of f c out n] by auto
qed

theorem create_project_structure_fresh_witness:
  "raised (create_project_structure empty_drive) = None
   \<and> fs (world_of (create_project_structure empty_drive)) =
       [[] \<mapsto> Dir] ++ map_of ((parent PROJECT_ROOT, Dir) # (PROJECT_ROOT, Dir) # project_layout)
   \<and> fs (world_of (create_project_structure empty_drive)) (PROJECT_ROOT @ [''data'', ''exchanges.json''])
       = Some (File (Json_dump EXCHANGE_DATA 4))
   \<and> fs (world_of (create_project_structure empty_drive)) (PROJECT_ROOT @ [''external'']) = None
   \<and> cwd (world_of (create_project_structure empty_drive)) = PROJECT_ROOT"
proof -
  from create_project_structure_fresh[OF wf_fs_empty_drive empty_drive_root_absent(1) _
      empty_drive_root_absent(3)] empty_drive_root_absent(2)
  obtain w' where run: "create_project_structure empty_drive = Ok w'"
    and fs': "fs w' = fs empty_drive
        ++ map_of ((parent PROJECT_ROOT, Dir) # (PROJECT_ROOT, Dir) # project_layout)"
    and cwd': "cwd w' = PROJECT_ROOT"
    by blast
  have "fs empty_drive = [[] \<mapsto> Dir]"
    by (simp add: empty_drive_def)
  with run fs' cwd' show ?thesis
    by (simp add: map_add_def project_layout_def PROJECT_ROOT_def parent_def)
qed

text \<open>
  C4, as stated, fails on two file systems where the project root is absent. Where
  \<^verbatim>\<open>D:/Projects\<close> is a regular file, the script raises FileExistsError and has made no
  \<^verbatim>\<open>src\<close> directory. Where the drive is empty, the script also makes
  \<^verbatim>\<open>D:/Projects\<close>, which is neither the project root nor a path of the layout.
\<close>

theorem create_project_structure_counterexample:
  "fs blocked_drive PROJECT_ROOT = None
   \<and> raised (create_project_structure blocked_drive) = Some FileExistsError
   \<and> fs (world_of (create_project_structure blocked_drive)) (PROJECT_ROOT @ [''src'']) = None
   \<and> fs empty_drive PROJECT_ROOT = None
   \<and> fs empty_drive (parent PROJECT_ROOT) = None
   \<and> fs (world_of (create_project_structure empty_drive)) (parent PROJECT_ROOT) = Some Dir
   \<and> parent PROJECT_ROOT \<notin> set (PROJECT_ROOT # map fst project_layout)"
proof -
  have blocked: "fs blocked_drive PROJECT_ROOT = None
     \<and> raised (create_project_structure blocked_drive) = Some FileExistsError
     \<and> fs (world_of (create_project_structure blocked_drive)) (PROJECT_ROOT @ [''src'']) = None"
    unfolding blocked_drive_def create_project_structure_def Let_def
    by (simp add: run_print run_mkdir_blocked[where x = "Text ''notes''"] PROJECT_ROOT_def parent_def)
  obtain out' where "create_project_structure empty_drive
      = Ok \<lparr>fs = fs empty_drive
              ++ map_of ((parent PROJECT_ROOT, Dir) # (PROJECT_ROOT, Dir) # project_layout),
            cwd = PROJECT_ROOT, stdout = out', fetched = []\<rparr>"
    using empty_drive_run by blast
  then have "fs (world_of (create_project_structure empty_drive)) (parent PROJECT_ROOT) = Some Dir"
    by simp
  moreover have "parent PROJECT_ROOT \<notin> set (PROJECT_ROOT # map fst project_layout)"
    by (simp add: project_layout_def PROJECT_ROOT_def parent_def)
  ultimately show ?thesis
    using blocked empty_drive_root_absent by simp
qed

section \<open>Running \<^verbatim>\<open>create_project_structure\<close> again\<close>

text \<open>
  C10. After a run of \<^verbatim>\<open>create_project_structure\<close> that returned, a second run returns
  as well, and leaves the file system (every directory and every file with its content) and
  the working directory as the first run left them. The world before the first run is
  arbitrary.
\<close>

theorem create_project_structure_idempotent:
  assumes "create_project_structure w = Ok w1"
  shows "\<exists>w2. create_project_structure w1 = Ok w2
    \<and> fs w2 = fs w1 \<and> cwd w2 = cwd w1 \<and> fetched w2 = fetched w1"
proof -
  obtain f c out n where w: "w = \<lparr>fs = f, cwd = c, stdout = out, fetched = n\<rparr>"
    by (cases w) simp
  obtain f1 c1 out1 n1 where w1: "w1 = \<lparr>fs = f1, cwd = c1, stdout = out1, fetched = n1\<rparr>"
    by (cases w1) simp
  from assms have "layout_present (fs w1)" and "cwd w1 = PROJECT_ROOT"
    unfolding w by (simp_all add: first_run)
  then have "layout_present f1" and c1: "c1 = PROJECT_ROOT"
    by (simp_all add: w1)
  from rerun[OF this(1), of c1 out1 n1] obtain out2 where
    "create_project_structure w1 = Ok \<lparr>fs = f1, cwd = PROJECT_ROOT, stdout = out2, fetched = n1\<rparr>"
    unfolding w1 by blast
  then show ?thesis
    by (simp add: w1 c1)
qed

theorem create_project_structure_idempotent_witness:
  "raised (create_project_structure empty_drive) = None
   \<and> raised (create_project_structure (world_of (create_project_structure empty_drive))) = None
   \<and> fs (world_of (create_project_structure (world_of (create_project_structure empty_drive))))
       = fs (world_of (create_project_structure empty_drive))
   \<and> fs (world_of (create_project_structure empty_drive)) (PROJECT_ROOT @ [''README.md''])
       = Some (File (Text README_TEMPLATE))"
proof -
  obtain out' where first: "create_project_structure empty_drive
      = Ok \<lparr>fs = fs empty_drive
              ++ map_of ((parent PROJECT_ROOT, Dir) # (PROJECT_ROOT, Dir) # project_layout),
            cwd = PROJECT_ROOT, stdout = out', fetched = []\<rparr>"
    using empty_drive_run by blast
  from create_project_structure_idempotent[OF first] obtain w2 where
    "create_project_structure (world_of (create_project_structure empty_drive)) = Ok w2"
    "fs w2 = fs (world_of (create_project_structure empty_drive))"
    by (auto simp: first)
  moreover have "fs (world_of (create_project_structure empty_drive)) (PROJECT_ROOT @ [''README.md''])
       = Some (File (Text README_TEMPLATE))"
    by (simp add: first map_add_def project_layout_def PROJECT_ROOT_def parent_def)
  ultimately show ?thesis
    by (simp add: first)
qed

section \<open>\<^verbatim>\<open>download_glad\<close>\<close>

text \<open>
  C5. Whatever the world, and whether it returns or raises, a run of \<^verbatim>\<open>download_glad\<close>
  requests nothing over the network and stays in the working directory; it only adds
  lines to the output; and every path of the file system is as before, except that some of
  the six directories \<open>glad_dirs\<close> that did not exist are now directories (so no file is
  written, \<^verbatim>\<open>glad.zip\<close> included). Where the project root is a directory and none of
  the six paths is a regular file, the run returns, all six are directories, and the
  lines printed hold the address of the generator and the three copy steps.
\<close>

theorem download_glad_effects:
  "fetched (world_of (download_glad w)) = fetched w
   \<and> cwd (world_of (download_glad w)) = cwd w
   \<and> (\<exists>lines. stdout (world_of (download_glad w)) = stdout w @ lines)
   \<and> (\<forall>q. fs (world_of (download_glad w)) q = fs w q
          \<or> (q \<in> set glad_dirs \<and> fs w q = None \<and> fs (world_of (download_glad w)) q = Some Dir))
   \<and> (fs w PROJECT_ROOT = Some Dir \<and> (\<forall>p \<in> set glad_dirs. \<forall>x. fs w p \<noteq> Some (File x)) \<longrightarrow>
        (\<exists>lines. download_glad w
             = Ok (w\<lparr>fs := fs w ++ map_of (map (\<lambda>p. (p, Dir)) glad_dirs),
                     stdout := stdout w @ lines\<rparr>)
           \<and> ''1. Visit: https://glad.dav1d.de/'' \<in> set lines
           \<and> ''   - Copy glad/include/glad/* to ''
                 @ path_str (PROJECT_ROOT @ [''external'', ''glad'', ''include'', ''glad'']) @ ''/'' \<in> set lines
           \<and> ''   - Copy glad/include/KHR/* to ''
                 @ path_str (PROJECT_ROOT @ [''external'', ''glad'', ''include'', ''KHR'']) @ ''/'' \<in> set lines
           \<and> ''   - Copy glad/src/glad.c to ''
                 @ path_str (PROJECT_ROOT @ [''external'', ''glad'', ''src'']) @ ''/'' \<in> set lines))"
proof -
  obtain f c out n where w: "w = \<lparr>fs = f, cwd = c, stdout = out, fetched = n\<rparr>"
    by (cases w) simp
  have frame: "fetched (world_of (download_glad w)) = fetched w
   \<and> cwd (world_of (download_glad w)) = cwd w
   \<and> (\<exists>lines. stdout (world_of (download_glad w)) = stdout w @ lines)
   \<and> (\<forall>q. fs (world_of (download_glad w)) q = fs w q
          \<or> (q \<in> set glad_dirs \<and> fs w q = None \<and> fs (world_of (download_glad w)) q = Some Dir))"
    using download_glad_only_creates[of w] by (simp add: only_creates_def)
  have "\<exists>lines. download_glad w
             = Ok (w\<lparr>fs := fs w ++ map_of (map (\<lambda>p. (p, Dir)) glad_dirs),
                     stdout := stdout w @ lines\<rparr>)
           \<and> ''1. Visit: https://glad.dav1d.de/'' \<in> set lines
           \<and> ''   - Copy glad/include/glad/* to ''
                 @ path_str (PROJECT_ROOT @ [''external'', ''glad'', ''include'', ''glad'']) @ ''/'' \<in> set lines
           \<and> ''   - Copy glad/include/KHR/* to ''
                 @ path_str (PROJECT_ROOT @ [''external'', ''glad'', ''include'', ''KHR'']) @ ''/'' \<in> set lines
           \<and> ''   - Copy glad/src/glad.c to ''
                 @ path_str (PROJECT_ROOT @ [''external'', ''glad'', ''src'']) @ ''/'' \<in> set lines"
    if "fs w PROJECT_ROOT = Some Dir" and "\<forall>p \<in> set glad_dirs. \<forall>x. fs w p \<noteq> Some (File x)"
    using download_glad_run[of f c out n] that unfolding w by simp
  with frame show ?thesis
    by blast
qed

theorem download_glad_effects_witness:
  "raised (download_glad rooted_drive) = None
   \<and> fs (world_of (download_glad rooted_drive))
       = fs rooted_drive ++ map_of (map (\<lambda>p. (p, Dir)) glad_dirs)
   \<and> fs (world_of (download_glad rooted_drive)) (PROJECT_ROOT @ [''external'', ''glad'', ''src''])
       = Some Dir
   \<and> fs (world_of (download_glad rooted_drive)) (PROJECT_ROOT @ [''external'', ''glad.zip'']) = None
   \<and> fetched (world_of (download_glad rooted_drive)) = []"
proof -
  have root: "fs rooted_drive PROJECT_ROOT = Some Dir"
    by (simp add: rooted_drive_def)
  have free: "\<forall>p \<in> set glad_dirs. \<forall>x. fs rooted_drive p \<noteq> Some (File x)"
    by (simp add: rooted_drive_def glad_dirs_def PROJECT_ROOT_def)
  from download_glad_effects[of rooted_drive] root free
  obtain lines where run: "download_glad rooted_drive
      = Ok (rooted_drive\<lparr>fs := fs rooted_drive ++ map_of (map (\<lambda>p. (p, Dir)) glad_dirs),
                         stdout := stdout rooted_drive @ lines\<rparr>)"
    by blast
  have "(fs rooted_drive ++ map_of (map (\<lambda>p. (p, Dir)) glad_dirs))
          (PROJECT_ROOT @ [''external'', ''glad'', ''src'']) = Some Dir"
    and "(fs rooted_drive ++ map_of (map (\<lambda>p. (p, Dir)) glad_dirs))
          (PROJECT_ROOT @ [''external'', ''glad.zip'']) = None"
    by (simp_all add: map_add_def glad_dirs_def rooted_drive_def PROJECT_ROOT_def)
  with run show ?thesis
    by (simp add: rooted_drive_def)
qed

text \<open>
  Without the project root the script does not get that far: its first \<^verbatim>\<open>mkdir\<close> has no
  \<^verbatim>\<open>parents=True\<close>, so it raises FileNotFoundError and the file system is as before.
\<close>

lemma run_mkdir_missing:
  assumes "f p = None" and "f (parent p) \<noteq> Some Dir"
  shows "run (Path_mkdir p False exist_ok # stmts) \<lparr>fs = f, cwd = c, stdout = out, fetched = n\<rparr> =
         Raised FileNotFoundError \<lparr>fs = f, cwd = c, stdout = out, fetched = n\<rparr>"
  using assms by (simp add: run.simps Path_mkdir_flat)

theorem download_glad_without_root:
  assumes "wf_fs (fs w)" and "fs w PROJECT_ROOT = None"
  shows "raised (download_glad w) = Some FileNotFoundError
    \<and> fs (world_of (download_glad w)) = fs w"
proof -
  obtain f c out n where w: "w = \<lparr>fs = f, cwd = c, stdout = out, fetched = n\<rparr>"
    by (cases w) simp
  from assms have "f (PROJECT_ROOT @ [''external'']) = None"
    unfolding w using wf_fs_absent_child[of f PROJECT_ROOT] by simp
  with assms show ?thesis
    unfolding w download_glad_def Let_def
    by (simp add: run_print run_mkdir_missing parent_append)
qed

theorem download_glad_without_root_witness:
  "raised (download_glad empty_drive) = Some FileNotFoundError
    \<and> fs (world_of (download_glad empty_drive)) (PROJECT_ROOT @ [''external'']) = None"
  using download_glad_without_root[OF wf_fs_empty_drive empty_drive_root_absent(3)]
  by (simp add: empty_drive_def PROJECT_ROOT_def)

section \<open>The latency model: symmetry and the diagonal\<close>

lemma sin_half_diff_sq:
  fixes u v :: real
  shows "(sin (radians (u - v) / 2))\<^sup>2 = (sin (radians (v - u) / 2))\<^sup>2"
proof -
  have "radians (v - u) / 2 = - (radians (u - v) / 2)"
    by (simp add: radians_def field_simps)
  then show ?thesis
    by (simp only: sin_minus power2_minus)
qed

lemma haversine_km_commute: "haversine_km a b = haversine_km b a"
  unfolding haversine_km_def Let_def
  by (simp add: sin_half_diff_sq[of "latitude a" "latitude b"]
      sin_half_diff_sq[of "longitude a" "longitude b"] mult.commute)

lemma haversine_km_same: "haversine_km a a = 0"
  by (simp add: haversine_km_def radians_def)

text \<open>The distance of the spec's scenario, (0, 0) to (0, 90): a quarter of a great circle,
  10,007.5 km for a radius of 6371 km.\<close>

lemma haversine_km_scenario: "haversine_km scenario_A scenario_B = earth_radius_km * pi / 2"
proof -
  have "sqrt ((sin (pi / 4))\<^sup>2) = sin (pi / 4)"
    by (simp add: sin_45)
  moreover have "arcsin (sin (pi / 4)) = pi / 4"
    by (rule arcsin_sin) (use pi_gt_zero in auto)
  ultimately show ?thesis
    by (simp add: haversine_km_def scenario_A_def scenario_B_def radians_def)
qed

text \<open>
  C6. For two nodes of the registry and every configuration, the latency from the first to
  the second is a number of microseconds, and the latency from the second to the first is
  the same number.
\<close>

theorem latency_symmetric:
  assumes "a \<in> set registry" and "b \<in> set registry"
  shows "latency registry a b config = latency registry b a config
    \<and> (\<exists>t. latency registry a b config = Inr t)"
  using assms by (simp add: latency_def haversine_km_commute[of a b])

theorem latency_symmetric_witness:
  "latency sample_registry NYSE_node LSE_node scenario_config
     = latency sample_registry LSE_node NYSE_node scenario_config
   \<and> latency sample_registry NYSE_node LSE_node scenario_config \<noteq> Inl InvalidNodeError"
proof -
  have "NYSE_node \<in> set sample_registry" and "LSE_node \<in> set sample_registry"
    by (simp_all add: sample_registry_def)
  from latency_symmetric[OF this, of scenario_config] show ?thesis
    by auto
qed

text \<open>
  C7. For a node of the registry and every configuration, the latency from the node to
  itself is zero microseconds.
\<close>

theorem latency_same_node_zero:
  assumes "a \<in> set registry"
  shows "latency registry a a config = Inr 0"
  using assms by (simp add: latency_def haversine_km_same)

theorem latency_same_node_zero_witness:
  "latency sample_registry LSE_node LSE_node scenario_config = Inr 0"
proof -
  have "LSE_node \<in> set sample_registry"
    by (simp add: sample_registry_def)
  then show ?thesis
    by (rule latency_same_node_zero)
qed

end
